theory Spec2Isabelle
  imports Main "HOL-Library.Sublist"
begin

section \<open>Text and the interpreter's string functions\<close>

text \<open>
  A Python string is a sequence of code points. It is modelled as a \<open>string\<close> whose
  characters are the code points 0 to 255; text with a code point above 255 has no value
  in this type. The functions below are the interpreter's \<open>str.strip\<close>, \<open>str.lower\<close>,
  \<open>int\<close> and \<open>str\<close> on that range.
\<close>

datatype error = ValueError | ReError | IndexError | IOError | TransportError

definition whitespace :: "char list" where
  \<comment> \<open>The characters for which \<open>str.isspace\<close> holds: 9 to 13, 28 to 32, 133 and 160.\<close>
  "whitespace =
     [CHR 0x09, CHR 0x0A, CHR 0x0B, CHR 0x0C, CHR 0x0D, CHR 0x1C, CHR 0x1D, CHR 0x1E,
      CHR 0x1F, CHR 0x20, CHR 0x85, CHR 0xA0]"

definition py_isspace :: "char \<Rightarrow> bool" where
  "py_isspace c = (c \<in> set whitespace)"

definition py_strip :: "string \<Rightarrow> string" where
  \<comment> \<open>\<open>s.strip()\<close>\<close>
  "py_strip s = rev (dropWhile py_isspace (rev (dropWhile py_isspace s)))"

definition upper_letters :: "char list" where
  \<comment> \<open>A to Z, and the capital letters 192 to 222 of Latin-1 (215 is the multiplication sign).\<close>
  "upper_letters = ''ABCDEFGHIJKLMNOPQRSTUVWXYZ'' @
       [CHR 0xC0, CHR 0xC1, CHR 0xC2, CHR 0xC3, CHR 0xC4, CHR 0xC5, CHR 0xC6, CHR 0xC7,
        CHR 0xC8, CHR 0xC9, CHR 0xCA, CHR 0xCB, CHR 0xCC, CHR 0xCD, CHR 0xCE, CHR 0xCF,
        CHR 0xD0, CHR 0xD1, CHR 0xD2, CHR 0xD3, CHR 0xD4, CHR 0xD5, CHR 0xD6, CHR 0xD8,
        CHR 0xD9, CHR 0xDA, CHR 0xDB, CHR 0xDC, CHR 0xDD, CHR 0xDE]"

definition lower_letters :: "char list" where
  \<comment> \<open>Each of them 32 above its capital.\<close>
  "lower_letters = ''abcdefghijklmnopqrstuvwxyz'' @
       [CHR 0xE0, CHR 0xE1, CHR 0xE2, CHR 0xE3, CHR 0xE4, CHR 0xE5, CHR 0xE6, CHR 0xE7,
        CHR 0xE8, CHR 0xE9, CHR 0xEA, CHR 0xEB, CHR 0xEC, CHR 0xED, CHR 0xEE, CHR 0xEF,
        CHR 0xF0, CHR 0xF1, CHR 0xF2, CHR 0xF3, CHR 0xF4, CHR 0xF5, CHR 0xF6, CHR 0xF8,
        CHR 0xF9, CHR 0xFA, CHR 0xFB, CHR 0xFC, CHR 0xFD, CHR 0xFE]"

definition py_lower_char :: "char \<Rightarrow> char" where
  "py_lower_char c = (case map_of (zip upper_letters lower_letters) c of None \<Rightarrow> c | Some d \<Rightarrow> d)"

definition py_lower :: "string \<Rightarrow> string" where
  \<comment> \<open>\<open>s.lower()\<close>\<close>
  "py_lower s = map py_lower_char s"

subsection \<open>\<open>int(s)\<close>\<close>

definition int_whitespace :: "char list" where
  \<comment> \<open>The blanks \<open>int\<close> skips at both ends; 28 to 31 are not among them.\<close>
  "int_whitespace = [CHR 0x09, CHR 0x0A, CHR 0x0B, CHR 0x0C, CHR 0x0D, CHR 0x20, CHR 0x85, CHR 0xA0]"

definition int_isspace :: "char \<Rightarrow> bool" where
  "int_isspace c = (c \<in> set int_whitespace)"

definition digit_val :: "char \<Rightarrow> nat option" where
  "digit_val c = map_of (zip ''0123456789'' [0, 1, 2, 3, 4, 5, 6, 7, 8, 9]) c"

fun digits_tail :: "nat \<Rightarrow> string \<Rightarrow> nat option" where
  "digits_tail acc [] = Some acc"
| "digits_tail acc [c] = (case digit_val c of None \<Rightarrow> None | Some v \<Rightarrow> Some (acc * 10 + v))"
| "digits_tail acc (c # d # ds) =
     (if c = CHR ''_''
      then (case digit_val d of None \<Rightarrow> None | Some v \<Rightarrow> digits_tail (acc * 10 + v) ds)
      else (case digit_val c of None \<Rightarrow> None | Some v \<Rightarrow> digits_tail (acc * 10 + v) (d # ds)))"

definition digits_value :: "string \<Rightarrow> nat option" where
  \<comment> \<open>A digit, then digits each preceded by at most one underscore.\<close>
  "digits_value s =
     (case s of
        [] \<Rightarrow> None
      | c # cs \<Rightarrow> (case digit_val c of None \<Rightarrow> None | Some v \<Rightarrow> digits_tail v cs))"

definition py_int :: "string \<Rightarrow> error + int" where
  \<comment> \<open>\<open>int(s)\<close>: blanks at both ends, one optional sign, the digits; \<open>ValueError\<close> otherwise.\<close>
  "py_int s =
     (let t = rev (dropWhile int_isspace (rev (dropWhile int_isspace s)));
          signed = (case t of
                      [] \<Rightarrow> None
                    | c # cs \<Rightarrow>
                        if c = CHR ''-'' then map_option (\<lambda>n. - int n) (digits_value cs)
                        else if c = CHR ''+'' then map_option int (digits_value cs)
                        else map_option int (digits_value t))
      in case signed of None \<Rightarrow> Inl ValueError | Some n \<Rightarrow> Inr n)"

subsection \<open>\<open>str(n)\<close> of an integer\<close>

fun nat_digits :: "nat \<Rightarrow> string" where
  "nat_digits n =
     (if n < 10 then [''0123456789'' ! n]
      else nat_digits (n div 10) @ [''0123456789'' ! (n mod 10)])"

declare nat_digits.simps [simp del]

definition str_int :: "int \<Rightarrow> string" where
  "str_int i = (if i < 0 then CHR ''-'' # nat_digits (nat (- i)) else nat_digits (nat i))"

section \<open>The pattern search of \<open>Series.str.contains\<close>\<close>

text \<open>
  \<open>Series.str.contains(pat)\<close> is called with its default \<open>regex=True\<close>: the argument is
  compiled by \<open>re.compile\<close> and a cell matches when \<open>re.search\<close> finds the pattern
  somewhere in it. The pattern language is the library's, not this repository's. It is
  modelled on two classes of patterns:
  \<^item> a pattern made of ordinary characters and dots, where an ordinary character matches
    itself and a dot matches any character but the line feed;
  \<^item> a pattern that starts with a repetition sign, which \<open>re.compile\<close> rejects
    (\<open>nothing to repeat\<close>).
  The library's answer on every other pattern is a parameter \<open>ext\<close>: \<open>None\<close> where
  \<open>re.compile\<close> raises, and the match predicate otherwise.
\<close>

type_synonym re_ext = "string \<Rightarrow> (string \<Rightarrow> bool) option"

definition re_specials :: "char list" where
  "re_specials = ''.^$*+?{}[]|()'' @ [CHR 0x5C]"

definition re_ordinary :: "char \<Rightarrow> bool" where
  "re_ordinary c = (c \<notin> set re_specials)"

datatype atom = Lit char | AnyChar

definition to_atom :: "char \<Rightarrow> atom" where
  "to_atom c = (if c = CHR ''.'' then AnyChar else Lit c)"

fun atom_matches :: "atom \<Rightarrow> char \<Rightarrow> bool" where
  "atom_matches (Lit c) d = (c = d)"
| "atom_matches AnyChar d = (d \<noteq> CHR 0x0A)"

fun match_here :: "atom list \<Rightarrow> string \<Rightarrow> bool" where
  "match_here [] s = True"
| "match_here (a # as) [] = False"
| "match_here (a # as) (c # cs) = (atom_matches a c \<and> match_here as cs)"

fun re_search :: "atom list \<Rightarrow> string \<Rightarrow> bool" where
  "re_search p [] = match_here p []"
| "re_search p (c # cs) = (match_here p (c # cs) \<or> re_search p cs)"

definition re_compile :: "re_ext \<Rightarrow> string \<Rightarrow> error + (string \<Rightarrow> bool)" where
  "re_compile ext pat =
     (if list_all (\<lambda>c. c = CHR ''.'' \<or> re_ordinary c) pat
      then Inr (re_search (map to_atom pat))
      else if pat \<noteq> [] \<and> hd pat \<in> set ''*+?'' then Inl ReError
      else (case ext pat of None \<Rightarrow> Inl ReError | Some m \<Rightarrow> Inr m))"

section \<open>The dataset\<close>

text \<open>
  Modelled from the spec: the types of the cells of \<open>pincodes.csv\<close>, a file that is not
  in the repository. A row has the eleven required columns; the text columns hold strings,
  the postal code is present and integral, and a coordinate may be absent. A coordinate is
  \<open>None\<close> where the cell is missing (\<open>pd.notna\<close> is false), and otherwise carries the
  text that formatting the cell in an f-string gives.
\<close>

record row =
  circlename :: string
  regionname :: string
  divisionname :: string
  officename :: string
  pincode :: int
  officetype :: string
  delivery :: string
  district :: string
  statename :: string
  latitude :: "string option"
  longitude :: "string option"

type_synonym dataset = "row list"

subsection \<open>Column operations\<close>

definition str_lower :: "string list \<Rightarrow> string list" where
  \<comment> \<open>\<open>Series.str.lower()\<close>\<close>
  "str_lower col = map py_lower col"

definition str_contains :: "re_ext \<Rightarrow> string list \<Rightarrow> string \<Rightarrow> error + bool list" where
  \<comment> \<open>\<open>Series.str.contains(pat)\<close>: the pattern is compiled once, then searched in each cell.\<close>
  "str_contains ext col pat =
     (case re_compile ext pat of Inl e \<Rightarrow> Inl e | Inr m \<Rightarrow> Inr (map m col))"

definition series_or :: "bool list \<Rightarrow> bool list \<Rightarrow> bool list" where
  \<comment> \<open>\<open>a | b\<close> on two boolean columns\<close>
  "series_or a b = map2 (\<or>) a b"

definition boolean_mask :: "'a list \<Rightarrow> bool list \<Rightarrow> 'a list" where
  \<comment> \<open>\<open>df[mask]\<close>: the rows whose mask entry is true, in their order.\<close>
  "boolean_mask df bs = map fst (filter snd (zip df bs))"

section \<open>\<open>search_pincode\<close>\<close>

definition location_search :: "re_ext \<Rightarrow> dataset \<Rightarrow> string \<Rightarrow> error + row list" where
  \<comment> \<open>The handler of \<open>ValueError\<close>, lines 57 to 60.\<close>
  "location_search ext df query0 =
     (let query = py_lower query0 in
      case str_contains ext (str_lower (map officename df)) query of
        Inl e \<Rightarrow> Inl e
      | Inr a \<Rightarrow>
     (case str_contains ext (str_lower (map district df)) query of
        Inl e \<Rightarrow> Inl e
      | Inr b \<Rightarrow>
     (case str_contains ext (str_lower (map statename df)) query of
        Inl e \<Rightarrow> Inl e
      | Inr c \<Rightarrow> Inr (boolean_mask df (series_or (series_or a b) c)))))"

definition try_search :: "re_ext \<Rightarrow> dataset \<Rightarrow> string \<Rightarrow> error + row list" where
  \<comment> \<open>The body of the outer \<open>try\<close>, lines 51 to 62.\<close>
  "try_search ext df query =
     (case py_int query of
        Inr n \<Rightarrow> Inr (boolean_mask df (map (\<lambda>r. pincode r = n) df))
      | Inl ValueError \<Rightarrow> location_search ext df query
      | Inl e \<Rightarrow> Inl e)"

type_synonym log_entry = "string \<times> error"

definition search_pincode :: "re_ext \<Rightarrow> dataset \<Rightarrow> string \<Rightarrow> row list \<times> log_entry list" where
  \<comment> \<open>The result, and what \<open>logger.error\<close> wrote.\<close>
  "search_pincode ext df query =
     (case try_search ext df query of
        Inr results \<Rightarrow> (results, [])
      | Inl e \<Rightarrow> ([], [(''Error in search'', e)]))"

section \<open>Rendering a result\<close>

text \<open>
  The icons of \<open>ICONS\<close> and the other pictographs of the message texts are code points
  above 255. They are carried by a table that every rendering function takes as a
  parameter: \<open>ICONS G key\<close> is \<open>ICONS[key]\<close>, and the four marks are the pictographs
  written in the message literals.
\<close>

record glyphs =
  ICONS :: "string \<Rightarrow> string"
  result_mark :: string
  info_mark :: string
  page_mark :: string
  cross_mark :: string

definition LF :: char where
  "LF = CHR 0x0A"

definition APOS :: char where
  "APOS = CHR 0x27"

fun join_lines :: "string list \<Rightarrow> string" where
  \<comment> \<open>\<open>"\n".join(lines)\<close>\<close>
  "join_lines [] = []"
| "join_lines [l] = l"
| "join_lines (l # m # ls) = l @ [LF] @ join_lines (m # ls)"

definition maps_url :: "string \<Rightarrow> string \<Rightarrow> string" where
  "maps_url lat lon = ''https://www.google.com/maps?q='' @ lat @ '','' @ lon"

definition format_lines :: "glyphs \<Rightarrow> row \<Rightarrow> int option \<Rightarrow> string list" where
  \<comment> \<open>The list \<open>lines\<close> of \<open>format_result\<close> when it is joined, lines 69 to 89.\<close>
  "format_lines G result index =
     (case index of
        None \<Rightarrow> []
      | Some i \<Rightarrow> [result_mark G @ '' <b>Result '' @ str_int (i + 1) @ ''</b>''])
     @ [ICONS G ''pincode'' @ '' <b>Pincode:</b> '' @ str_int (pincode result),
        ICONS G ''office'' @ '' <b>Office:</b> '' @ officename result,
        ICONS G ''type'' @ '' <b>Type:</b> '' @ officetype result,
        ICONS G ''delivery'' @ '' <b>Delivery:</b> '' @ delivery result,
        ICONS G ''circle'' @ '' <b>Circle:</b> '' @ circlename result,
        ICONS G ''region'' @ '' <b>Region:</b> '' @ regionname result,
        ICONS G ''division'' @ '' <b>Division:</b> '' @ divisionname result,
        ICONS G ''district'' @ '' <b>District:</b> '' @ district result,
        ICONS G ''state'' @ '' <b>State:</b> '' @ statename result]
     @ (case latitude result of
          None \<Rightarrow> []
        | Some lat \<Rightarrow>
            (case longitude result of
               None \<Rightarrow> []
             | Some lon \<Rightarrow>
                 [ICONS G ''location'' @ '' <a href='' @ [APOS] @ maps_url lat lon @ [APOS]
                  @ ''>View on Google Maps</a>'']))"

definition format_result :: "glyphs \<Rightarrow> row \<Rightarrow> int option \<Rightarrow> string" where
  "format_result G result index = join_lines (format_lines G result index)"

section \<open>The exported document\<close>

text \<open>
  The document is the sequence of calls made on the \<open>FPDF\<close> object. Every cell is written
  with width 200, height 10 and \<open>ln=1\<close>; a cell carries its text and its alignment.
\<close>

datatype pdf_op =
    AddPage
  | SetFont string string nat
  | Cell string string
  | Ln nat

definition details :: "row \<Rightarrow> string list" where
  \<comment> \<open>Lines 112 to 122.\<close>
  "details result =
     [''Pincode: '' @ str_int (pincode result),
      ''Office: '' @ officename result,
      ''Type: '' @ officetype result,
      ''Delivery: '' @ delivery result,
      ''Circle: '' @ circlename result,
      ''Region: '' @ regionname result,
      ''Division: '' @ divisionname result,
      ''District: '' @ district result,
      ''State: '' @ statename result]"

fun add_results :: "int \<Rightarrow> row list \<Rightarrow> pdf_op list \<Rightarrow> pdf_op list" where
  \<comment> \<open>The loop of lines 107 to 133 from index \<open>i\<close> on; \<open>pdf\<close> is what has been written.\<close>
  "add_results i [] pdf = pdf"
| "add_results i (result # rest) pdf =
     add_results (i + 1) rest
       (pdf
        @ [SetFont ''Arial'' ''B'' 12, Cell (''Result '' @ str_int (i + 1)) [],
           SetFont ''Arial'' [] 12]
        @ map (\<lambda>line. Cell line []) (details result)
        @ (case latitude result of
             None \<Rightarrow> []
           | Some lat \<Rightarrow>
               (case longitude result of
                  None \<Rightarrow> []
                | Some lon \<Rightarrow> [Cell (''Google Maps: '' @ maps_url lat lon) []]))
        @ [Ln 5])"

definition pdf_document :: "row list \<Rightarrow> string \<Rightarrow> pdf_op list" where
  \<comment> \<open>The document of \<open>create_pdf\<close> before it is saved, lines 95 to 133.\<close>
  "pdf_document results query =
     add_results 0 results
       [AddPage, SetFont ''Arial'' [] 12,
        SetFont ''Arial'' ''B'' 16, Cell ''Indian Pincode Search Results'' ''C'',
        SetFont ''Arial'' [] 12, Cell (''Search Query: '' @ query) ''C'',
        Ln 10]"

type_synonym files = "string \<rightharpoonup> pdf_op list"

text \<open>
  What the collaborators outside the repository do during an export: whether
  \<open>pdf.output\<close> can write a path, and whether \<open>reply_document\<close> delivers.
\<close>

record env =
  can_write :: "string \<Rightarrow> bool"
  can_send_document :: bool

definition create_pdf :: "env \<Rightarrow> row list \<Rightarrow> string \<Rightarrow> files \<Rightarrow> error + string \<times> files" where
  "create_pdf E results query fs =
     (let pdf = pdf_document results query;
          pdf_path = ''pincode_results_'' @ query @ ''.pdf''
      in if can_write E pdf_path then Inr (pdf_path, fs(pdf_path \<mapsto> pdf)) else Inl IOError)"

section \<open>The handlers\<close>

text \<open>
  A handler runs on the requester's \<open>context.user_data\<close>, the working directory, the
  messages handed to the transport and the log. Of a text reply the model keeps the text,
  the parse mode and the inline button (its label and callback data).
\<close>

record user_data =
  last_results :: "row list option"
  last_query :: "string option"

datatype outbound =
    ReplyText string "string option" "(string \<times> string) option"
  | ReplyDocument "pdf_op list" string string
  | EditMessageText string
  | Answer

record world =
  session :: user_data
  files :: files
  outbox :: "outbound list"
  logged :: "log_entry list"

definition reply :: "outbound \<Rightarrow> world \<Rightarrow> world" where
  "reply m w = w\<lparr>outbox := outbox w @ [m]\<rparr>"

fun send_results :: "glyphs \<Rightarrow> string \<Rightarrow> row list \<Rightarrow> int \<Rightarrow> row list \<Rightarrow> world \<Rightarrow> world" where
  \<comment> \<open>The loop of lines 170 to 187 from index \<open>i\<close> on, over what is left of \<open>results[:5]\<close>.\<close>
  "send_results G query results i [] w = w"
| "send_results G query results i (result # rest) w =
     (let reply_text = format_result G result (Some i);
          is_last = (i = int (length (take 5 results)) - 1);
          reply_text =
            (if is_last
             then (if length results > 5
                   then reply_text @ [LF, LF] @ info_mark G @ '' Showing 5 of ''
                        @ str_int (int (length results)) @ '' results.''
                   else reply_text)
                  @ [LF, LF] @ page_mark G @ '' You can export all results to PDF:''
             else reply_text);
          reply_markup =
            (if is_last then Some (''Export to PDF'', ''pdf_export:'' @ query) else None)
      in send_results G query results (i + 1) rest
           (reply (ReplyText reply_text (Some ''HTML'') reply_markup) w))"

definition handle_search ::
  "glyphs \<Rightarrow> (string \<Rightarrow> row list \<times> log_entry list) \<Rightarrow> string \<Rightarrow> world \<Rightarrow> world" where
  \<comment> \<open>\<open>search\<close> is the function \<open>search_pincode\<close> that the handler calls; \<open>text\<close> is
      \<open>update.message.text\<close>.\<close>
  "handle_search G search text w =
     (let query = py_strip text in
      if query = []
      then reply (ReplyText ''Please enter a pincode or location name to search.'' None None) w
      else
        (case search query of
           (results, lg) \<Rightarrow>
             (let w = w\<lparr>logged := logged w @ lg\<rparr> in
              if results = []
              then reply (ReplyText (cross_mark G
                            @ '' No results found. Please try a different query.'') None None) w
              else
                (let w = w\<lparr>session := (session w)\<lparr>last_results := Some results\<rparr>\<rparr>;
                     w = w\<lparr>session := (session w)\<lparr>last_query := Some query\<rparr>\<rparr>;
                     w = send_results G query results 0 (take 5 results) w
                 in if length results > 5
                    then reply (ReplyText (info_mark G @ '' There are more results (''
                                  @ str_int (int (length results))
                                  @ '' total). Please refine your search for better results.'')
                                (Some ''HTML'') None) w
                    else w))))"

fun after_colon :: "string \<Rightarrow> string option" where
  \<comment> \<open>\<open>data.split(':', 1)[1]\<close>; \<open>None\<close> where the index is out of range.\<close>
  "after_colon [] = None"
| "after_colon (c # cs) = (if c = CHR '':'' then Some cs else after_colon cs)"

definition export_failed :: "glyphs \<Rightarrow> error \<Rightarrow> world \<Rightarrow> world" where
  \<comment> \<open>The \<open>except\<close> branch, lines 224 to 226.\<close>
  "export_failed G e w =
     reply (ReplyText (cross_mark G
              @ '' Sorry, there was an error generating the PDF. Please try again.'') None None)
       (w\<lparr>logged := logged w @ [(''Error generating PDF'', e)]\<rparr>)"

definition export_pdf :: "glyphs \<Rightarrow> env \<Rightarrow> string \<Rightarrow> world \<Rightarrow> error + world" where
  \<comment> \<open>\<open>data\<close> is \<open>update.callback_query.data\<close>. An exception that leaves the handler
      is \<open>Inl\<close>.\<close>
  "export_pdf G E data w =
     (let w = reply Answer w in
      case after_colon data of
        None \<Rightarrow> Inl IndexError
      | Some original_query \<Rightarrow>
          (let results = (case last_results (session w) of None \<Rightarrow> [] | Some rs \<Rightarrow> rs) in
           if results = []
           then Inr (reply (EditMessageText (''Sorry, I couldn'' @ [APOS]
                       @ ''t find those results anymore. Please perform a new search.'')) w)
           else
             (case create_pdf E results original_query (files w) of
                Inl e \<Rightarrow> Inr (export_failed G e w)
              | Inr (pdf_path, fs) \<Rightarrow>
                  (let w = w\<lparr>files := fs\<rparr> in
                   case files w pdf_path of
                     None \<Rightarrow> Inr (export_failed G IOError w)
                   | Some pdf_file \<Rightarrow>
                       if can_send_document E
                       then
                         (let w = reply (ReplyDocument pdf_file
                                    (''Here are the pincode results for '' @ [APOS]
                                     @ original_query @ [APOS])
                                    (''pincode_results_'' @ original_query @ ''.pdf'')) w
                          in Inr (w\<lparr>files := (files w)(pdf_path := None)\<rparr>))
                       else Inr (export_failed G TransportError w)))))"

section \<open>The behaviour the specification describes\<close>

text \<open>
  These definitions follow the words of the specification, not the code; the theorems
  below compare the code with them.
\<close>

definition spec_location_match :: "string \<Rightarrow> row \<Rightarrow> bool" where
  \<comment> \<open>The lower-cased office name, district or state name contains the lower-cased query as
      a substring.\<close>
  "spec_location_match q r =
     (sublist (py_lower q) (py_lower (officename r))
      \<or> sublist (py_lower q) (py_lower (district r))
      \<or> sublist (py_lower q) (py_lower (statename r)))"

definition spec_fields :: "row \<Rightarrow> (string \<times> string) list" where
  \<comment> \<open>The nine labeled fields in their fixed order: postal code, office, type, delivery,
      circle, region, division, district, state.\<close>
  "spec_fields r =
     [(''Pincode'', str_int (pincode r)), (''Office'', officename r), (''Type'', officetype r),
      (''Delivery'', delivery r), (''Circle'', circlename r), (''Region'', regionname r),
      (''Division'', divisionname r), (''District'', district r), (''State'', statename r)]"

definition spec_map_link :: "row \<Rightarrow> string option" where
  \<comment> \<open>The map link, present when both coordinates are.\<close>
  "spec_map_link r =
     (case (latitude r, longitude r) of
        (Some lat, Some lon) \<Rightarrow> Some (''https://www.google.com/maps?q='' @ lat @ '','' @ lon)
      | _ \<Rightarrow> None)"

definition icon_keys :: "string list" where
  "icon_keys =
     [''pincode'', ''office'', ''type'', ''delivery'', ''circle'', ''region'', ''division'',
      ''district'', ''state'']"

definition spec_text_lines :: "glyphs \<Rightarrow> row \<Rightarrow> int option \<Rightarrow> string list" where
  \<comment> \<open>The optional header, the nine fields each behind its icon, the optional map link.\<close>
  "spec_text_lines G r index =
     (case index of
        None \<Rightarrow> []
      | Some i \<Rightarrow> [result_mark G @ '' <b>Result '' @ str_int (i + 1) @ ''</b>''])
     @ map (\<lambda>(key, label, val). ICONS G key @ '' <b>'' @ label @ '':</b> '' @ val)
         (zip icon_keys (spec_fields r))
     @ (case spec_map_link r of
          None \<Rightarrow> []
        | Some url \<Rightarrow>
            [ICONS G ''location'' @ '' <a href='' @ [APOS] @ url @ [APOS]
             @ ''>View on Google Maps</a>''])"

definition spec_joined :: "string list \<Rightarrow> string" where
  \<comment> \<open>The text of a block: its lines one after the other, each line after the first behind
      one line feed.\<close>
  "spec_joined ls = (case ls of [] \<Rightarrow> [] | l # rest \<Rightarrow> l @ concat (map (\<lambda>m. CHR 0x0A # m) rest))"



definition result_message :: "glyphs \<Rightarrow> string \<Rightarrow> nat \<Rightarrow> nat \<Rightarrow> row \<Rightarrow> outbound" where
  \<comment> \<open>The message of the result at position \<open>i\<close> of a search with \<open>n\<close> results. The last
      message shown carries the notice when results are left out, and the export button.\<close>
  "result_message G query n i r =
     (if Suc i = min n 5
      then ReplyText
             (format_result G r (Some (int i))
              @ (if 5 < n
                 then [LF, LF] @ info_mark G @ '' Showing 5 of '' @ str_int (int n) @ '' results.''
                 else [])
              @ [LF, LF] @ page_mark G @ '' You can export all results to PDF:'')
             (Some ''HTML'') (Some (''Export to PDF'', ''pdf_export:'' @ query))
      else ReplyText (format_result G r (Some (int i))) (Some ''HTML'') None)"

definition more_message :: "glyphs \<Rightarrow> nat \<Rightarrow> outbound" where
  "more_message G n =
     ReplyText (info_mark G @ '' There are more results ('' @ str_int (int n)
                @ '' total). Please refine your search for better results.'')
       (Some ''HTML'') None"

definition no_results_message :: "glyphs \<Rightarrow> outbound" where
  "no_results_message G =
     ReplyText (cross_mark G @ '' No results found. Please try a different query.'') None None"

definition enter_query_message :: outbound where
  "enter_query_message =
     ReplyText ''Please enter a pincode or location name to search.'' None None"

definition search_again_message :: outbound where
  "search_again_message =
     EditMessageText (''Sorry, I couldn'' @ [APOS]
       @ ''t find those results anymore. Please perform a new search.'')"

section \<open>Example data\<close>

definition delhi_row :: row where
  "delhi_row =
     \<lparr>circlename = ''Delhi'', regionname = ''Delhi'', divisionname = ''New Delhi Central'',
      officename = ''New Delhi GPO'', pincode = 110001, officetype = ''HO'',
      delivery = ''Delivery'', district = ''New Delhi'', statename = ''Delhi'',
      latitude = Some ''28.63'', longitude = Some ''77.21''\<rparr>"

definition agra_row :: row where
  "agra_row =
     \<lparr>circlename = ''Uttar Pradesh'', regionname = ''Agra'', divisionname = ''Agra'',
      officename = ''Agra Fort'', pincode = 282003, officetype = ''SO'',
      delivery = ''Non-Delivery'', district = ''Agra'', statename = ''Uttar Pradesh'',
      latitude = None, longitude = Some ''78.02''\<rparr>"

definition no_ext :: re_ext where
  \<comment> \<open>Stands for the library on the patterns that are not modelled, in examples whose
      patterns are.\<close>
  "no_ext pat = None"

definition ascii_glyphs :: glyphs where
  \<comment> \<open>Stand-ins for the pictographs, for the examples.\<close>
  "ascii_glyphs =
     \<lparr>ICONS = (\<lambda>key. ''['' @ key @ '']''), result_mark = ''*'', info_mark = ''(i)'',
      page_mark = ''(pdf)'', cross_mark = ''(x)''\<rparr>"

definition world0 :: world where
  \<comment> \<open>A requester who has not searched yet.\<close>
  "world0 =
     \<lparr>session = \<lparr>last_results = None, last_query = None\<rparr>, files = Map.empty,
      outbox = [], logged = []\<rparr>"

definition delhi_world :: world where
  \<comment> \<open>A requester whose last search was \<open>delhi\<close>.\<close>
  "delhi_world =
     \<lparr>session = \<lparr>last_results = Some [delhi_row], last_query = Some ''delhi''\<rparr>,
      files = Map.empty, outbox = [], logged = []\<rparr>"

definition env_ok :: env where
  "env_ok = \<lparr>can_write = (\<lambda>path. True), can_send_document = True\<rparr>"

definition env_send_fails :: env where
  "env_send_fails = \<lparr>can_write = (\<lambda>path. True), can_send_document = False\<rparr>"

section \<open>Evaluation and column lemmas\<close>

lemmas text_eval =
  py_lower_def py_lower_char_def upper_letters_def lower_letters_def
  py_isspace_def whitespace_def py_strip_def
  int_isspace_def int_whitespace_def digit_val_def digits_value_def py_int_def

lemmas search_eval =
  search_pincode_def try_search_def location_search_def str_contains_def str_lower_def
  series_or_def boolean_mask_def re_compile_def re_ordinary_def re_specials_def to_atom_def

lemma boolean_mask_map: "boolean_mask df (map P df) = filter P df"
  by (induction df) (simp_all add: boolean_mask_def)

lemma series_or_map: "series_or (map P df) (map Q df) = map (\<lambda>r. P r \<or> Q r) df"
  by (induction df) (simp_all add: series_or_def)

section \<open>Search by postal code\<close>

text \<open>
  C1. When \<open>int(query)\<close> succeeds with \<open>n\<close>, \<open>search_pincode\<close> returns the rows whose postal
  code is \<open>n\<close>, all of them and no other, in the order of the dataset (\<open>filter\<close> keeps the
  order of the list), and logs nothing.
\<close>

theorem search_by_pincode:
  "py_int q = Inr n \<Longrightarrow> search_pincode ext df q = (filter (\<lambda>r. pincode r = n) df, [])"
  by (simp add: search_pincode_def try_search_def boolean_mask_map)

theorem search_by_pincode_witness:
  "py_int ''110001'' = Inr 110001
   \<and> search_pincode no_ext [agra_row, delhi_row] ''110001'' = ([delhi_row], [])"
  using search_by_pincode [of "''110001''" 110001 no_ext "[agra_row, delhi_row]"]
  by (simp add: text_eval delhi_row_def agra_row_def)

section \<open>Search by location name\<close>

lemma match_here_literal: "match_here (map Lit p) s = prefix p s"
proof (induction p arbitrary: s)
  case Nil
  show ?case by simp
next
  case (Cons a p)
  show ?case by (cases s) (auto simp: Cons.IH)
qed

lemma re_search_literal: "re_search (map Lit p) s = sublist p s"
  by (induction s) (simp_all add: match_here_literal sublist_Cons_right)

lemma to_atom_ordinary: "list_all re_ordinary p \<Longrightarrow> map to_atom p = map Lit p"
  by (induction p) (auto simp: to_atom_def re_ordinary_def re_specials_def)

lemma re_compile_ordinary:
  "list_all re_ordinary p \<Longrightarrow> re_compile ext p = Inr (\<lambda>s. sublist p s)"
proof -
  assume ord: "list_all re_ordinary p"
  then have "list_all (\<lambda>c. c = CHR ''.'' \<or> re_ordinary c) p"
    by (induction p) auto
  then show ?thesis
    using ord by (simp add: re_compile_def to_atom_ordinary re_search_literal fun_eq_iff)
qed

lemma boolean_mask_subseq: "subseq (boolean_mask df bs) df"
proof (induction df arbitrary: bs)
  case Nil
  show ?case by (simp add: boolean_mask_def)
next
  case (Cons r df)
  show ?case
  proof (cases bs)
    case Nil
    then show ?thesis by (simp add: boolean_mask_def)
  next
    case (Cons b bs')
    with Cons.IH [of bs'] show ?thesis
      by (auto simp: boolean_mask_def)
  qed
qed

text \<open>
  Where the lower-cased query has no character that is special in a pattern, the pattern
  search is the substring search of the specification.
\<close>

lemma location_search_plain:
  assumes "list_all re_ordinary (py_lower q)"
  shows "location_search ext df q = Inr (filter (spec_location_match q) df)"
proof -
  have col: "map (sublist (py_lower q)) (str_lower (map f df))
               = map (\<lambda>r. sublist (py_lower q) (py_lower (f r))) df" for f :: "row \<Rightarrow> string"
    by (simp add: str_lower_def comp_def)
  have spec: "spec_location_match q =
      (\<lambda>r. (sublist (py_lower q) (py_lower (officename r))
            \<or> sublist (py_lower q) (py_lower (district r)))
            \<or> sublist (py_lower q) (py_lower (statename r)))"
    by (simp add: fun_eq_iff spec_location_match_def)
  have "location_search ext df q =
          Inr (boolean_mask df (map (spec_location_match q) df))"
    unfolding location_search_def Let_def str_contains_def spec
    by (simp add: re_compile_ordinary [OF assms] col series_or_map)
  then show ?thesis by (simp add: boolean_mask_map)
qed

lemma location_search_plain_example:
  "list_all re_ordinary (py_lower ''Delhi'')
   \<and> location_search no_ext [agra_row, delhi_row] ''Delhi'' = Inr [delhi_row]"
  using location_search_plain [of "''Delhi''" no_ext "[agra_row, delhi_row]"]
  by (simp add: text_eval re_ordinary_def re_specials_def spec_location_match_def
      delhi_row_def agra_row_def sublist_Cons_right prefix_Cons)

text \<open>
  C2. The claim is that a query which is no integer selects the rows of which a
  lower-cased name contains the lower-cased query as a substring. The code hands the query
  to \<open>str.contains\<close> as a pattern: the query \<open>n.w\<close> is no integer and no name in the
  dataset contains \<open>n.w\<close>, yet the search returns the row of New Delhi, whose office name
  has \<open>new\<close>.
\<close>

theorem location_search_reads_pattern:
  "py_int ''n.w'' = Inl ValueError
   \<and> search_pincode ext [agra_row, delhi_row] ''n.w'' = ([delhi_row], [])
   \<and> filter (spec_location_match ''n.w'') [agra_row, delhi_row] = []"
  by (simp add: search_eval text_eval spec_location_match_def delhi_row_def agra_row_def
      sublist_Cons_right prefix_Cons)

section \<open>Errors inside the search\<close>

lemma try_search_subseq: "try_search ext df q = Inr rs \<Longrightarrow> subseq rs df"
  by (auto simp: try_search_def location_search_def Let_def boolean_mask_subseq
      split: sum.splits error.splits)

text \<open>
  C3. \<open>search_pincode\<close> returns a list of rows on every query. An exception raised inside
  the \<open>try\<close> is caught: the result is the empty list and the error is logged. Otherwise
  the result is what the body computed, and the rows returned are rows of the dataset in
  their order.
\<close>

theorem search_never_raises:
  "(try_search ext df q = Inl e \<longrightarrow> search_pincode ext df q = ([], [(''Error in search'', e)]))
   \<and> (try_search ext df q = Inr rs \<longrightarrow> search_pincode ext df q = (rs, []))
   \<and> subseq (fst (search_pincode ext df q)) df"
  using try_search_subseq [of ext df q]
  by (auto simp: search_pincode_def split: sum.splits)

theorem search_never_raises_witness:
  "try_search no_ext [agra_row, delhi_row] ''?'' = Inl ReError
   \<and> search_pincode no_ext [agra_row, delhi_row] ''?'' = ([], [(''Error in search'', ReError)])"
  using search_never_raises [of no_ext "[agra_row, delhi_row]" "''?''" ReError "[]"]
  by (simp add: search_eval text_eval)

section \<open>The text of a result\<close>

lemma format_lines_spec: "format_lines G r idx = spec_text_lines G r idx"
  by (simp add: format_lines_def spec_text_lines_def icon_keys_def spec_fields_def
      spec_map_link_def maps_url_def split: option.splits)

lemma join_lines_joined: "join_lines ls = spec_joined ls"
proof (induction ls rule: join_lines.induct)
  case 1
  show ?case by (simp add: spec_joined_def)
next
  case (2 l)
  show ?case by (simp add: spec_joined_def)
next
  case (3 l m ls)
  then show ?case by (simp add: spec_joined_def LF_def)
qed

text \<open>
  C4. For every row and every index argument, the text that \<open>format_result\<close> returns is
  the optional header, the nine labeled fields in the fixed order and the map link, each
  line after the first behind one line feed and nothing else. The link is there exactly
  when the latitude and the longitude are both present, and nothing is rendered for a
  single coordinate.
\<close>

theorem format_result_fields:
  "format_result G r idx = spec_joined (spec_text_lines G r idx)
   \<and> format_result G r idx = join_lines (spec_text_lines G r idx)
   \<and> format_lines G r idx = spec_text_lines G r idx
   \<and> length (spec_fields r) = 9
   \<and> length (spec_text_lines G r idx) =
       (case idx of None \<Rightarrow> 0 | Some i \<Rightarrow> 1) + 9 + (case spec_map_link r of None \<Rightarrow> 0 | Some u \<Rightarrow> 1)
   \<and> (spec_map_link r \<noteq> None) = (latitude r \<noteq> None \<and> longitude r \<noteq> None)"
  by (simp add: format_result_def format_lines_spec join_lines_joined)
     (simp add: spec_text_lines_def icon_keys_def spec_fields_def spec_map_link_def
      split: option.splits)

text \<open>
  The theorem at two rows: one with both coordinates and an index, one with a longitude
  only and no index.
\<close>

theorem format_result_fields_witness:
  "format_result ascii_glyphs delhi_row (Some 0)
     = ''* <b>Result 1</b>'' @ [LF]
       @ ''[pincode] <b>Pincode:</b> 110001'' @ [LF]
       @ ''[office] <b>Office:</b> New Delhi GPO'' @ [LF]
       @ ''[type] <b>Type:</b> HO'' @ [LF]
       @ ''[delivery] <b>Delivery:</b> Delivery'' @ [LF]
       @ ''[circle] <b>Circle:</b> Delhi'' @ [LF]
       @ ''[region] <b>Region:</b> Delhi'' @ [LF]
       @ ''[division] <b>Division:</b> New Delhi Central'' @ [LF]
       @ ''[district] <b>District:</b> New Delhi'' @ [LF]
       @ ''[state] <b>State:</b> Delhi'' @ [LF]
       @ ''[location] <a href='' @ [APOS] @ ''https://www.google.com/maps?q=28.63,77.21''
       @ [APOS] @ ''>View on Google Maps</a>''
   \<and> format_result ascii_glyphs agra_row None
     = ''[pincode] <b>Pincode:</b> 282003'' @ [LF]
       @ ''[office] <b>Office:</b> Agra Fort'' @ [LF]
       @ ''[type] <b>Type:</b> SO'' @ [LF]
       @ ''[delivery] <b>Delivery:</b> Non-Delivery'' @ [LF]
       @ ''[circle] <b>Circle:</b> Uttar Pradesh'' @ [LF]
       @ ''[region] <b>Region:</b> Agra'' @ [LF]
       @ ''[division] <b>Division:</b> Agra'' @ [LF]
       @ ''[district] <b>District:</b> Agra'' @ [LF]
       @ ''[state] <b>State:</b> Uttar Pradesh''"
proof -
  have n1: "str_int 110001 = ''110001''" and n2: "str_int 282003 = ''282003''"
    and n3: "str_int 1 = ''1''"
    by (simp_all add: str_int_def nat_digits.simps)
  from format_result_fields [of ascii_glyphs delhi_row "Some 0"]
    format_result_fields [of ascii_glyphs agra_row None]
  show ?thesis
    by (simp add: spec_joined_def spec_text_lines_def icon_keys_def spec_fields_def
        spec_map_link_def ascii_glyphs_def delhi_row_def agra_row_def n1 n2 n3 LF_def)
qed

section \<open>The blocks of the document\<close>




section \<open>Blank queries\<close>

lemma dropWhile_all_Nil:
  assumes "\<forall>x\<in>set (dropWhile P s). P x"
  shows "\<forall>x\<in>set s. P x"
proof -
  have "dropWhile P s = []"
  proof (rule ccontr)
    assume ne: "dropWhile P s \<noteq> []"
    then have "\<not> P (hd (dropWhile P s))" by (rule hd_dropWhile)
    moreover from ne have "hd (dropWhile P s) \<in> set (dropWhile P s)" by (rule hd_in_set)
    ultimately show False using assms by blast
  qed
  then show ?thesis by simp
qed

lemma strip_core:
  assumes "u \<noteq> []" "\<not> P (hd u)" "\<not> P (last u)"
  shows "rev (dropWhile P (rev (dropWhile P u))) = u"
proof -
  have 1: "dropWhile P u = u" using assms(2) by (simp add: dropWhile_eq_self_iff)
  have 2: "dropWhile P (rev u) = rev u"
    using assms(3) by (simp add: dropWhile_eq_self_iff hd_rev)
  show ?thesis by (simp only: 1 2 rev_rev_ident)
qed

lemma strip_ends:
  assumes ne: "rev (dropWhile P (rev (dropWhile P s))) \<noteq> []"
  shows "\<not> P (hd (rev (dropWhile P (rev (dropWhile P s)))))
         \<and> \<not> P (last (rev (dropWhile P (rev (dropWhile P s)))))"
proof -
  define t where "t = dropWhile P s"
  define d where "d = dropWhile P (rev t)"
  from ne have dne: "d \<noteq> []" by (simp add: d_def t_def del: dropWhile_eq_Nil_conv)
  then have l: "\<not> P (hd d)" unfolding d_def by (rule hd_dropWhile)
  have "rev t = takeWhile P (rev t) @ d" by (simp add: d_def)
  then have "rev (rev t) = rev (takeWhile P (rev t) @ d)" by (rule arg_cong)
  then have split: "t = rev d @ rev (takeWhile P (rev t))" by simp
  have "hd t = hd (rev d @ rev (takeWhile P (rev t)))" by (rule arg_cong [OF split])
  also have "\<dots> = hd (rev d)" using dne by simp
  finally have hd_eq: "hd (rev d) = hd t" by simp
  have tne: "t \<noteq> []" using split dne by auto
  then have "\<not> P (hd t)" unfolding t_def by (rule hd_dropWhile)
  with hd_eq l show ?thesis
    unfolding d_def [symmetric] t_def [symmetric] by (simp add: last_rev)
qed

lemma py_strip_idem: "py_strip (py_strip s) = py_strip s"
proof (cases "py_strip s = []")
  case True
  have "py_strip [] = []" by (simp add: py_strip_def)
  with True show ?thesis by simp
next
  case False
  then have ends: "\<not> py_isspace (hd (py_strip s)) \<and> \<not> py_isspace (last (py_strip s))"
    unfolding py_strip_def by (rule strip_ends)
  from False ends have "rev (dropWhile py_isspace (rev (dropWhile py_isspace (py_strip s)))) = py_strip s"
    by (intro strip_core) simp_all
  then show ?thesis by (simp add: py_strip_def)
qed

lemma py_strip_blank: "(py_strip s = []) = list_all py_isspace s"
proof
  assume "py_strip s = []"
  then have "\<forall>x\<in>set (dropWhile py_isspace s). py_isspace x"
    by (simp add: py_strip_def)
  then have "\<forall>x\<in>set s. py_isspace x" by (rule dropWhile_all_Nil)
  then show "list_all py_isspace s" by (simp add: list_all_iff)
next
  assume "list_all py_isspace s"
  then have "dropWhile py_isspace s = []" by (simp add: list_all_iff)
  then show "py_strip s = []" by (simp only: py_strip_def rev.simps dropWhile.simps)
qed

text \<open>
  C10. The handler strips the text before it tests for emptiness. A text made of
  whitespace only is answered like the empty text, with the prompt to enter a query and
  nothing else: the result does not depend on the search function. And the handler calls
  the search function at most on the stripped text, which is then not empty and is its own
  strip: two search functions that agree on such queries give the same handler.
\<close>

theorem blank_query_rejected:
  "(list_all py_isspace text \<longrightarrow> handle_search G search text w = reply enter_query_message w)
   \<and> ((\<forall>q. q \<noteq> [] \<and> py_strip q = q \<longrightarrow> search q = search' q)
        \<longrightarrow> handle_search G search text w = handle_search G search' text w)"
proof (intro conjI impI)
  assume "list_all py_isspace text"
  then have "py_strip text = []" by (simp add: py_strip_blank)
  then show "handle_search G search text w = reply enter_query_message w"
    by (simp add: handle_search_def enter_query_message_def)
next
  assume agree: "\<forall>q. q \<noteq> [] \<and> py_strip q = q \<longrightarrow> search q = search' q"
  show "handle_search G search text w = handle_search G search' text w"
  proof (cases "py_strip text = []")
    case True
    then show ?thesis by (simp add: handle_search_def)
  next
    case False
    have "py_strip (py_strip text) = py_strip text" by (rule py_strip_idem)
    with agree False have "search (py_strip text) = search' (py_strip text)"
      by blast
    then show ?thesis by (simp add: handle_search_def Let_def)
  qed
qed

theorem blank_query_rejected_witness:
  "list_all py_isspace [CHR 0x20, CHR 0x09, CHR 0xA0]
   \<and> handle_search ascii_glyphs (search_pincode no_ext [agra_row, delhi_row])
         [CHR 0x20, CHR 0x09, CHR 0xA0] world0
       = reply enter_query_message world0
   \<and> handle_search ascii_glyphs (search_pincode no_ext [agra_row, delhi_row]) '' 110001 '' world0
       = handle_search ascii_glyphs
           (\<lambda>q. if q \<noteq> [] \<and> py_strip q = q
                then search_pincode no_ext [agra_row, delhi_row] q else ([agra_row], []))
           '' 110001 '' world0"
proof -
  have blank: "list_all py_isspace [CHR 0x20, CHR 0x09, CHR 0xA0]"
    by (simp add: py_isspace_def whitespace_def)
  have agree: "\<forall>q. q \<noteq> [] \<and> py_strip q = q \<longrightarrow>
      search_pincode no_ext [agra_row, delhi_row] q
        = (if q \<noteq> [] \<and> py_strip q = q
           then search_pincode no_ext [agra_row, delhi_row] q else ([agra_row], []))"
    by simp
  from blank agree
    blank_query_rejected [of "[CHR 0x20, CHR 0x09, CHR 0xA0]" ascii_glyphs
      "search_pincode no_ext [agra_row, delhi_row]" world0]
    blank_query_rejected [of "'' 110001 ''" ascii_glyphs
      "search_pincode no_ext [agra_row, delhi_row]" world0
      "\<lambda>q. if q \<noteq> [] \<and> py_strip q = q
           then search_pincode no_ext [agra_row, delhi_row] q else ([agra_row], [])"]
  show ?thesis by blast
qed

section \<open>The messages of a search\<close>

lemma send_results_step:
  "send_results G q rs (int k) (r # rest) w
     = send_results G q rs (int (Suc k)) rest (reply (result_message G q (length rs) k r) w)"
proof -
  have last_iff: "(int k = int (length (take 5 rs)) - 1) = (Suc k = min (length rs) 5)"
    by (simp add: min_def) arith
  have suc: "int k + 1 = int (Suc k)" by simp
  show ?thesis
    unfolding send_results.simps Let_def last_iff suc
    by (simp add: result_message_def)
qed

lemma send_results_outbox:
  "outbox (send_results G q rs (int k) rest w)
     = outbox w @ map (\<lambda>(i, r). result_message G q (length rs) i r) (enumerate k rest)"
proof (induction rest arbitrary: k w)
  case Nil
  show ?case by simp
next
  case (Cons r rest)
  show ?case
    unfolding send_results_step Cons.IH by (simp add: reply_def)
qed

lemma send_results_keeps:
  "session (send_results G q rs i rest w) = session w
   \<and> files (send_results G q rs i rest w) = files w
   \<and> logged (send_results G q rs i rest w) = logged w"
  by (induction rest arbitrary: i w) (simp_all add: Let_def reply_def)

text \<open>
  C6. When the search returns \<open>n\<close> rows, the handler sends one message for each of the
  first five rows and no other result: \<open>min n 5\<close> result messages, in order (none when
  \<open>n\<close> is zero, where the only message says that nothing was found). The last result
  message carries the export button and, when \<open>n\<close> is above five, the notice that 5 of
  \<open>n\<close> results are shown; in that case a closing note with the total follows the five
  results.
\<close>

theorem chat_shows_at_most_five:
  assumes "py_strip text \<noteq> []" and "search (py_strip text) = (rs, lg)"
  shows "outbox (handle_search G search text w)
           = outbox w
             @ (if rs = [] then [no_results_message G]
                else map (\<lambda>(i, r). result_message G (py_strip text) (length rs) i r)
                       (enumerate 0 (take 5 rs))
                     @ (if 5 < length rs then [more_message G (length rs)] else []))
         \<and> length (take 5 rs) = min (length rs) 5"
proof -
  have sent: "outbox (send_results G (py_strip text) rs 0 (take 5 rs) w')
                = outbox w' @ map (\<lambda>(i, r). result_message G (py_strip text) (length rs) i r)
                                (enumerate 0 (take 5 rs))" for w'
    using send_results_outbox [of G "py_strip text" rs 0 "take 5 rs" w'] by simp
  show ?thesis
    using assms
    by (simp add: handle_search_def Let_def reply_def more_message_def no_results_message_def
        sent del: take_all)
qed

theorem chat_shows_at_most_five_witness:
  "py_strip ''delhi'' \<noteq> [] \<and> replicate 7 delhi_row \<noteq> []
   \<and> outbox (handle_search ascii_glyphs (\<lambda>q. (replicate 7 delhi_row, [])) ''delhi'' world0)
       = map (\<lambda>i. result_message ascii_glyphs ''delhi'' 7 i delhi_row) [0, 1, 2, 3, 4]
         @ [more_message ascii_glyphs 7]
   \<and> result_message ascii_glyphs ''delhi'' 7 4 delhi_row
       = ReplyText
           (format_result ascii_glyphs delhi_row (Some 4) @ [LF, LF]
            @ ''(i) Showing 5 of 7 results.'' @ [LF, LF]
            @ ''(pdf) You can export all results to PDF:'')
           (Some ''HTML'') (Some (''Export to PDF'', ''pdf_export:delhi''))"
proof -
  have s: "py_strip ''delhi'' = ''delhi''" by (simp add: text_eval)
  have e: "enumerate 0 (replicate 5 delhi_row)
             = [(0, delhi_row), (1, delhi_row), (2, delhi_row), (3, delhi_row), (4, delhi_row)]"
    by (simp add: eval_nat_numeral)
  have m: "result_message ascii_glyphs ''delhi'' 7 4 delhi_row
       = ReplyText
           (format_result ascii_glyphs delhi_row (Some 4) @ [LF, LF]
            @ ''(i) Showing 5 of 7 results.'' @ [LF, LF]
            @ ''(pdf) You can export all results to PDF:'')
           (Some ''HTML'') (Some (''Export to PDF'', ''pdf_export:delhi''))"
    by (simp add: result_message_def ascii_glyphs_def str_int_def nat_digits.simps)
  from chat_shows_at_most_five [of "''delhi''" "\<lambda>q. (replicate 7 delhi_row, [])"
      "replicate 7 delhi_row" "[]" ascii_glyphs world0]
  show ?thesis by (simp add: s e m world0_def)
qed

section \<open>The session\<close>

text \<open>
  C8, as amended. A search that returns at least one row overwrites the session with the
  stripped query and the full list of rows. A search that returns no row, like a blank
  text, leaves the session as it was.
\<close>

theorem search_records_session:
  assumes "search (py_strip text) = (rs, lg)"
  shows "session (handle_search G search text w)
           = (if py_strip text = [] \<or> rs = [] then session w
              else \<lparr>last_results = Some rs, last_query = Some (py_strip text)\<rparr>)"
  using assms
  by (simp add: handle_search_def Let_def reply_def send_results_keeps)

theorem search_records_session_witness:
  "search_pincode no_ext [agra_row, delhi_row] (py_strip '' 110001 '') = ([delhi_row], [])
   \<and> session (handle_search ascii_glyphs (search_pincode no_ext [agra_row, delhi_row])
        '' 110001 '' delhi_world)
       = \<lparr>last_results = Some [delhi_row], last_query = Some ''110001''\<rparr>"
proof -
  have s: "py_strip '' 110001 '' = ''110001''" by (simp add: text_eval)
  have r: "search_pincode no_ext [agra_row, delhi_row] ''110001'' = ([delhi_row], [])"
    by (simp add: search_eval text_eval delhi_row_def agra_row_def)
  from search_records_session [of "search_pincode no_ext [agra_row, delhi_row]" "'' 110001 ''"
      "[delhi_row]" "[]" ascii_glyphs delhi_world]
  show ?thesis by (simp add: s r)
qed

text \<open>
  The claim as stated fails on a search without results: after the search for \<open>999999\<close>,
  which finds nothing, the session still holds the query \<open>delhi\<close> and its row, not the
  query \<open>999999\<close> with an empty list. The handler returns at line 163, before the store of
  lines 166 and 167.
\<close>

theorem empty_search_keeps_session:
  "search_pincode no_ext [agra_row, delhi_row] ''999999'' = ([], [])
   \<and> session (handle_search ascii_glyphs (search_pincode no_ext [agra_row, delhi_row])
        ''999999'' delhi_world)
       = \<lparr>last_results = Some [delhi_row], last_query = Some ''delhi''\<rparr>
   \<and> session (handle_search ascii_glyphs (search_pincode no_ext [agra_row, delhi_row])
        ''999999'' delhi_world)
       \<noteq> \<lparr>last_results = Some [], last_query = Some ''999999''\<rparr>"
proof -
  have s: "py_strip ''999999'' = ''999999''" by (simp add: text_eval)
  have r: "search_pincode no_ext [agra_row, delhi_row] ''999999'' = ([], [])"
    by (simp add: search_eval text_eval delhi_row_def agra_row_def)
  show ?thesis
    by (simp add: handle_search_def s r reply_def delhi_world_def)
qed

section \<open>The export\<close>

text \<open>
  The dispatcher hands a callback to \<open>export_pdf\<close> when its data match \<open>^pdf_export:\<close>;
  what follows the first colon is then what follows this prefix.
\<close>

lemma after_colon_pattern: "after_colon (''pdf_export:'' @ q) = Some q"
  by simp

text \<open>
  C9. An export trigger that finds no stored results, whether no search was recorded or the
  stored list is empty, is answered and the message is edited to ask for a new search. No
  document is written or sent, the session and the log are as before, and the handler
  returns normally.
\<close>

theorem export_without_session:
  assumes "data = ''pdf_export:'' @ q"
    and "last_results (session w) = None \<or> last_results (session w) = Some []"
  shows "export_pdf G E data w = Inr (w\<lparr>outbox := outbox w @ [Answer, search_again_message]\<rparr>)"
  using assms
  by (auto simp: export_pdf_def Let_def reply_def search_again_message_def)

theorem export_without_session_witness:
  "last_results (session world0) = None
   \<and> export_pdf ascii_glyphs env_ok ''pdf_export:delhi'' world0
       = Inr (world0\<lparr>outbox := [Answer, search_again_message]\<rparr>)
   \<and> files world0 = Map.empty"
  using export_without_session [of "''pdf_export:delhi''" "''delhi''" world0 ascii_glyphs env_ok]
  by (simp add: world0_def)

text \<open>
  On the path where the document is written and delivered, the file is removed before the
  handler returns.
\<close>

lemma export_removes_file_on_success:
  assumes "data = ''pdf_export:'' @ q" and "last_results (session w) = Some rs" and "rs \<noteq> []"
    and "can_write E (''pincode_results_'' @ q @ ''.pdf'')" and "can_send_document E"
  shows "export_pdf G E data w
           = Inr (w\<lparr>outbox := outbox w
                     @ [Answer,
                        ReplyDocument (pdf_document rs q)
                          (''Here are the pincode results for '' @ [APOS] @ q @ [APOS])
                          (''pincode_results_'' @ q @ ''.pdf'')],
                   files := (files w)(''pincode_results_'' @ q @ ''.pdf'' := None)\<rparr>)"
  using assms
  by (simp add: export_pdf_def Let_def reply_def create_pdf_def)

lemma export_removes_file_example:
  "export_pdf ascii_glyphs env_ok ''pdf_export:delhi'' delhi_world
     = Inr (delhi_world
         \<lparr>outbox := [Answer,
                     ReplyDocument (pdf_document [delhi_row] ''delhi'')
                       (''Here are the pincode results for '' @ [APOS] @ ''delhi'' @ [APOS])
                       ''pincode_results_delhi.pdf''],
          files := Map.empty\<rparr>)"
  using export_removes_file_on_success [of "''pdf_export:delhi''" "''delhi''" delhi_world
      "[delhi_row]" env_ok ascii_glyphs]
  by (simp add: delhi_world_def env_ok_def)

text \<open>
  C7. The claim is that the temporary file is removed on the failure path too. The
  \<open>os.remove\<close> of line 222 is the last statement inside the \<open>try\<close>, and the \<open>except\<close>
  branch only logs and replies: when \<open>reply_document\<close> raises after the file has been
  written, the handler returns with the file still in place.
\<close>

theorem export_leaves_file_when_send_fails:
  "export_pdf ascii_glyphs env_send_fails ''pdf_export:delhi'' delhi_world
     = Inr (delhi_world
         \<lparr>files := [''pincode_results_delhi.pdf'' \<mapsto> pdf_document [delhi_row] ''delhi''],
          outbox := [Answer,
                     ReplyText ''(x) Sorry, there was an error generating the PDF. Please try again.''
                       None None],
          logged := [(''Error generating PDF'', TransportError)]\<rparr>)"
  by (simp add: export_pdf_def Let_def reply_def create_pdf_def export_failed_def
      delhi_world_def env_send_fails_def ascii_glyphs_def)

end
